theory Spec2Isabelle
  imports Main
begin

section \<open>The rectangle and the JSON helpers of 06-objects-tasks.js\<close>

text \<open>
  A plain data object is the list of its own enumerable properties, in the order in which
  \<open>Object.keys\<close> and \<open>JSON.stringify\<close> enumerate them, with distinct keys. The values that
  the claims need are integers and \<open>undefined\<close>.
\<close>

datatype jsvalue = Undefined | Num int

type_synonym jsobject = "(string \<times> jsvalue) list"

definition Object_keys :: "jsobject \<Rightarrow> string list" where
  "Object_keys obj = map fst obj"

text \<open>\<open>obj[key]\<close>: a property that the object does not have reads as \<open>undefined\<close>.\<close>

definition get_prop :: "jsobject \<Rightarrow> string \<Rightarrow> jsvalue" where
  "get_prop obj key = (case map_of obj key of None \<Rightarrow> Undefined | Some v \<Rightarrow> v)"

text \<open>
  \<open>Rectangle(width, height)\<close> returns the object literal \<open>{ width, height, getArea() {...} }\<close>;
  its data properties are \<open>width\<close> and \<open>height\<close>, in this order. Called through \<open>new\<close>
  with a spread argument list, it returns the same literal, and a parameter with no argument
  is \<open>undefined\<close>.
\<close>

definition Rectangle :: "jsvalue \<Rightarrow> jsvalue \<Rightarrow> jsobject" where
  "Rectangle width height = [(''width'', width), (''height'', height)]"

definition argument :: "jsvalue list \<Rightarrow> nat \<Rightarrow> jsvalue" where
  "argument args i = (if i < length args then args ! i else Undefined)"

definition new_Rectangle :: "jsvalue list \<Rightarrow> jsobject" where
  "new_Rectangle args = Rectangle (argument args 0) (argument args 1)"

text \<open>
  \<open>JSON.stringify\<close> and \<open>JSON.parse\<close> belong to the platform, not to the repository: they are
  parameters of the two functions that call them, and so is \<open>proto.constructor\<close>, which
  receives the spread argument list. A \<open>JSON.parse\<close> that throws is \<open>None\<close>.
\<close>

definition getJSON :: "('obj \<Rightarrow> string) \<Rightarrow> 'obj \<Rightarrow> string" where
  "getJSON JSON_stringify obj = JSON_stringify obj"

definition fromJSON ::
  "(string \<Rightarrow> jsobject option) \<Rightarrow> (jsvalue list \<Rightarrow> 'a) \<Rightarrow> string \<Rightarrow> 'a option" where
  "fromJSON JSON_parse proto_constructor json =
     (case JSON_parse json of
        None \<Rightarrow> None
      | Some obj \<Rightarrow>
          let keys = Object_keys obj
          in Some (proto_constructor (map (\<lambda>key. get_prop obj key) keys)))"

subsection \<open>The platform's functions on objects of integers\<close>

text \<open>
  To run the two functions on concrete objects, the platform's pair is written out for the
  objects whose properties are integers: \<open>flat_stringify\<close> is the text \<open>JSON.stringify\<close>
  gives for such an object (a property that is \<open>undefined\<close> is left out), and \<open>flat_parse\<close>
  reads a text of this form, without white space or escapes, and fails on any other.
\<close>

fun decimal :: "nat \<Rightarrow> string" where
  "decimal n =
     (if n < 10 then [''0123456789'' ! n] else decimal (n div 10) @ [''0123456789'' ! (n mod 10)])"

definition number_text :: "int \<Rightarrow> string" where
  "number_text i = (if i < 0 then ''-'' @ decimal (nat (- i)) else decimal (nat i))"

fun member_texts :: "jsobject \<Rightarrow> string list" where
  "member_texts [] = []"
| "member_texts ((k, Undefined) # ps) = member_texts ps"
| "member_texts ((k, Num i) # ps) =
     ([CHR 0x22] @ k @ [CHR 0x22] @ '':'' @ number_text i) # member_texts ps"

fun join :: "string list \<Rightarrow> string" where
  "join [] = []"
| "join [s] = s"
| "join (s # ss) = s @ '','' @ join ss"

definition flat_stringify :: "jsobject \<Rightarrow> string" where
  "flat_stringify obj = ''{'' @ join (member_texts obj) @ ''}''"

definition digit_of :: "char \<Rightarrow> nat option" where
  "digit_of c = (if c \<in> set ''0123456789'' then Some (of_char c - 48) else None)"

datatype scan = Start | First | Next | In_key string | Colon string | Sign string | Minus string
  | Digits string bool nat | Zero string | Closed

definition signed :: "bool \<Rightarrow> nat \<Rightarrow> jsvalue" where
  "signed neg n = Num (if neg then - int n else int n)"

fun step :: "scan \<times> jsobject \<Rightarrow> char \<Rightarrow> (scan \<times> jsobject) option" where
  "step (Start, ps) c = (if c = CHR ''{'' then Some (First, ps) else None)"
| "step (First, ps) c =
     (if c = CHR 0x22 then Some (In_key [], ps)
      else if c = CHR ''}'' then Some (Closed, ps) else None)"
| "step (Next, ps) c = (if c = CHR 0x22 then Some (In_key [], ps) else None)"
| "step (In_key k, ps) c =
     (if c = CHR 0x22 then Some (Colon k, ps)
      else if c = CHR 0x5C \<or> of_char c < (32::nat) then None
      else Some (In_key (k @ [c]), ps))"
| "step (Colon k, ps) c = (if c = CHR '':'' then Some (Sign k, ps) else None)"
| "step (Sign k, ps) c =
     (if c = CHR ''-'' then Some (Minus k, ps)
      else (case digit_of c of
              Some d \<Rightarrow> Some (if d = 0 then Zero k else Digits k False d, ps)
            | None \<Rightarrow> None))"
| "step (Minus k, ps) c =
     (case digit_of c of
        Some d \<Rightarrow> Some (if d = 0 then Zero k else Digits k True d, ps)
      | None \<Rightarrow> None)"
| "step (Digits k neg n, ps) c =
     (case digit_of c of
        Some d \<Rightarrow> Some (Digits k neg (10 * n + d), ps)
      | None \<Rightarrow>
          if c = CHR '','' then Some (Next, ps @ [(k, signed neg n)])
          else if c = CHR ''}'' then Some (Closed, ps @ [(k, signed neg n)])
          else None)"
| "step (Zero k, ps) c =
     (if c = CHR '','' then Some (Next, ps @ [(k, Num 0)])
      else if c = CHR ''}'' then Some (Closed, ps @ [(k, Num 0)])
      else None)"
| "step (Closed, ps) c = None"

fun scan_all :: "scan \<times> jsobject \<Rightarrow> string \<Rightarrow> (scan \<times> jsobject) option" where
  "scan_all st [] = Some st"
| "scan_all st (c # cs) = (case step st c of None \<Rightarrow> None | Some st' \<Rightarrow> scan_all st' cs)"

definition flat_parse :: "string \<Rightarrow> jsobject option" where
  "flat_parse json =
     (case scan_all (Start, []) json of Some (Closed, ps) \<Rightarrow> Some ps | _ \<Rightarrow> None)"

section \<open>The CSS selector builder of 06-objects-tasks.js\<close>

subsection \<open>Objects, references and the store\<close>

text \<open>
  The data properties of the object literal \<open>cssSelectorBuilder\<close> (and of every shallow copy
  \<open>{ ...this }\<close> of it). The property \<open>order\<close> is never assigned after the literal is
  evaluated, so it is the constant \<open>order\<close> below; the methods are the functions of this
  theory, which take the receiver \<open>this\<close> as a reference.
\<close>

record selector =
  res :: string
  isEl :: bool
  isId :: bool
  isPsEl :: bool
  index :: int

text \<open>
  JavaScript objects are mutable and are passed by reference. A store is the list of all
  objects allocated so far, a reference is a position in it, and a new object is allocated
  at the end.
\<close>

type_synonym ref = nat
type_synonym store = "selector list"

text \<open>\<open>throw new Error(message)\<close>: the only exception class of the file.\<close>

datatype error = Error string

definition order :: "string list" where
  "order = [''element'', ''id'', ''class'', ''attribute'', ''pseudo-class'', ''pseudo-element'']"

text \<open>\<open>Array.prototype.indexOf\<close>: the first position of the element, or \<open>-1\<close>.\<close>

fun indexOf :: "'a list \<Rightarrow> 'a \<Rightarrow> int" where
  "indexOf [] x = - 1"
| "indexOf (y # ys) x =
     (if y = x then 0 else (let i = indexOf ys x in if i = - 1 then - 1 else i + 1))"

definition getErr :: error where
  "getErr = Error ''Element, id and pseudo-element should not occur more then one time inside the selector''"

definition getErrOrder :: error where
  "getErrOrder = Error ''Selector parts should be arranged in the following order: element, id, class, attribute, pseudo-class, pseudo-element''"

text \<open>The object literal itself: the shared facade.\<close>

definition cssSelectorBuilder :: selector where
  "cssSelectorBuilder = \<lparr>res = [], isEl = False, isId = False, isPsEl = False, index = - 1\<rparr>"

subsection \<open>The methods\<close>

text \<open>
  Every method takes its arguments, the receiver and the store, and returns the value it
  returns (or the error it throws) together with the store it leaves behind. An assignment
  to a property is an update of the store at the reference.
\<close>

definition element :: "string \<Rightarrow> ref \<Rightarrow> store \<Rightarrow> (error + ref) \<times> store" where
  "element v this h =
     (if isEl (h ! this) then (Inl getErr, h)
      else
        let cThis = length h;
            h1 = h @ [h ! this];
            h2 = h1[cThis := (h1 ! cThis)\<lparr>isEl := True\<rparr>];
            h3 = h2[cThis := (h2 ! cThis)\<lparr>res := res (h2 ! cThis) @ v\<rparr>]
        in if index (h3 ! cThis) > indexOf order ''element'' then (Inl getErrOrder, h3)
           else (Inr cThis, h3[cThis := (h3 ! cThis)\<lparr>index := indexOf order ''element''\<rparr>]))"

definition id_sel :: "string \<Rightarrow> ref \<Rightarrow> store \<Rightarrow> (error + ref) \<times> store" where
  "id_sel v this h =
     (if isId (h ! this) then (Inl getErr, h)
      else
        let cThis = length h;
            h1 = h @ [h ! this];
            h2 = h1[cThis := (h1 ! cThis)\<lparr>isId := True\<rparr>];
            h3 = h2[cThis := (h2 ! cThis)\<lparr>res := res (h2 ! cThis) @ ''#'' @ v\<rparr>]
        in if index (h3 ! cThis) > indexOf order ''id'' then (Inl getErrOrder, h3)
           else (Inr cThis, h3[cThis := (h3 ! cThis)\<lparr>index := indexOf order ''id''\<rparr>]))"

definition class_sel :: "string \<Rightarrow> ref \<Rightarrow> store \<Rightarrow> (error + ref) \<times> store" where
  "class_sel v this h =
     (if index (h ! this) > indexOf order ''class'' then (Inl getErrOrder, h)
      else
        let h1 = h[this := (h ! this)\<lparr>index := indexOf order ''class''\<rparr>];
            h2 = h1[this := (h1 ! this)\<lparr>res := res (h1 ! this) @ ''.'' @ v\<rparr>]
        in (Inr this, h2))"

definition attr :: "string \<Rightarrow> ref \<Rightarrow> store \<Rightarrow> (error + ref) \<times> store" where
  "attr v this h =
     (if index (h ! this) > indexOf order ''attribute'' then (Inl getErrOrder, h)
      else
        let h1 = h[this := (h ! this)\<lparr>index := indexOf order ''attribute''\<rparr>];
            h2 = h1[this := (h1 ! this)\<lparr>res := res (h1 ! this) @ ''['' @ v @ '']''\<rparr>]
        in (Inr this, h2))"

definition pseudoClass :: "string \<Rightarrow> ref \<Rightarrow> store \<Rightarrow> (error + ref) \<times> store" where
  "pseudoClass v this h =
     (if index (h ! this) > indexOf order ''pseudo-class'' then (Inl getErrOrder, h)
      else
        let h1 = h[this := (h ! this)\<lparr>index := indexOf order ''pseudo-class''\<rparr>];
            h2 = h1[this := (h1 ! this)\<lparr>res := res (h1 ! this) @ '':'' @ v\<rparr>]
        in (Inr this, h2))"

definition pseudoElement :: "string \<Rightarrow> ref \<Rightarrow> store \<Rightarrow> (error + ref) \<times> store" where
  "pseudoElement v this h =
     (if isPsEl (h ! this) then (Inl getErr, h)
      else
        let cThis = length h;
            h1 = h @ [h ! this];
            h2 = h1[cThis := (h1 ! cThis)\<lparr>isPsEl := True\<rparr>];
            h3 = h2[cThis := (h2 ! cThis)\<lparr>res := res (h2 ! cThis) @ ''::'' @ v\<rparr>]
        in if index (h3 ! cThis) > indexOf order ''pseudo-element'' then (Inl getErrOrder, h3)
           else (Inr cThis, h3[cThis := (h3 ! cThis)\<lparr>index := indexOf order ''pseudo-element''\<rparr>]))"

definition stringify :: "ref \<Rightarrow> store \<Rightarrow> (error + string) \<times> store" where
  "stringify this h =
     (let buff = res (h ! this);
          h1 = h[this := (h ! this)\<lparr>res := []\<rparr>];
          h2 = h1[this := (h1 ! this)\<lparr>index := - 1\<rparr>]
      in (Inr buff, h2))"

text \<open>
  Sequencing: \<open>m.f(...)\<close> evaluates \<open>m\<close>, and calls \<open>f\<close> on its value in the store that
  \<open>m\<close> left; an exception of \<open>m\<close> ends the evaluation.
\<close>

definition then_call ::
  "(store \<Rightarrow> (error + 'a) \<times> store) \<Rightarrow> ('a \<Rightarrow> store \<Rightarrow> (error + 'b) \<times> store) \<Rightarrow>
   store \<Rightarrow> (error + 'b) \<times> store" where
  "then_call m f h = (case m h of (Inl e, h') \<Rightarrow> (Inl e, h') | (Inr x, h') \<Rightarrow> f x h')"

text \<open>
  The template literal of \<open>combine\<close> evaluates \<open>selector1.stringify()\<close>, then
  \<open>selector2.stringify()\<close>, and only then is the text assigned to \<open>this.res\<close>.
\<close>

definition combine :: "ref \<Rightarrow> string \<Rightarrow> ref \<Rightarrow> ref \<Rightarrow> store \<Rightarrow> (error + ref) \<times> store" where
  "combine selector1 combinator selector2 this =
     then_call (stringify selector1) (\<lambda>t1.
     then_call (stringify selector2) (\<lambda>t2 h.
       (Inr this, h[this := (h ! this)\<lparr>res := t1 @ '' '' @ combinator @ '' '' @ t2\<rparr>])))"

text \<open>The store of a program that has only evaluated the object literal: the facade is object 0.\<close>

definition store0 :: store where
  "store0 = [cssSelectorBuilder]"

definition builder :: ref where
  "builder = 0"

subsection \<open>Calls by kind, and chains of calls\<close>

text \<open>
  The six appending methods, named by the kind of part they append; \<open>rank k\<close> is the
  position \<open>this.order.indexOf(...)\<close> that the method of kind \<open>k\<close> compares with
  \<open>index\<close>, and \<open>seen k\<close> is the flag that it tests first (none for \<open>class\<close>,
  \<open>attr\<close> and \<open>pseudoClass\<close>). A chain \<open>x.m1(v1).m2(v2)...\<close> calls each method on the
  value of the call before it.
\<close>

datatype part = Element | Id | Class | Attribute | PseudoClass | PseudoElement

fun append_part :: "part \<Rightarrow> string \<Rightarrow> ref \<Rightarrow> store \<Rightarrow> (error + ref) \<times> store" where
  "append_part Element = element"
| "append_part Id = id_sel"
| "append_part Class = class_sel"
| "append_part Attribute = attr"
| "append_part PseudoClass = pseudoClass"
| "append_part PseudoElement = pseudoElement"

fun rank :: "part \<Rightarrow> int" where
  "rank Element = indexOf order ''element''"
| "rank Id = indexOf order ''id''"
| "rank Class = indexOf order ''class''"
| "rank Attribute = indexOf order ''attribute''"
| "rank PseudoClass = indexOf order ''pseudo-class''"
| "rank PseudoElement = indexOf order ''pseudo-element''"

fun seen :: "part \<Rightarrow> selector \<Rightarrow> bool" where
  "seen Element s = isEl s"
| "seen Id s = isId s"
| "seen PseudoElement s = isPsEl s"
| "seen k s = False"

fun chain :: "(part \<times> string) list \<Rightarrow> ref \<Rightarrow> store \<Rightarrow> (error + ref) \<times> store" where
  "chain [] this h = (Inr this, h)"
| "chain ((k, v) # ops) this h = then_call (append_part k v this) (chain ops) h"

section \<open>Properties\<close>

subsection \<open>The methods in closed form\<close>

lemma indexOf_order:
  "indexOf order ''element'' = 0" "indexOf order ''id'' = 1" "indexOf order ''class'' = 2"
  "indexOf order ''attribute'' = 3" "indexOf order ''pseudo-class'' = 4"
  "indexOf order ''pseudo-element'' = 5"
  by (simp_all add: order_def)

lemma element_eq:
  "element v this h =
     (if isEl (h ! this) then (Inl getErr, h)
      else if 0 < index (h ! this)
        then (Inl getErrOrder, h @ [(h ! this)\<lparr>isEl := True, res := res (h ! this) @ v\<rparr>])
        else (Inr (length h), h @ [(h ! this)\<lparr>isEl := True, res := res (h ! this) @ v, index := 0\<rparr>]))"
  by (simp add: element_def Let_def indexOf_order)

lemma id_sel_eq:
  "id_sel v this h =
     (if isId (h ! this) then (Inl getErr, h)
      else if 1 < index (h ! this)
        then (Inl getErrOrder, h @ [(h ! this)\<lparr>isId := True, res := res (h ! this) @ ''#'' @ v\<rparr>])
        else (Inr (length h), h @ [(h ! this)\<lparr>isId := True, res := res (h ! this) @ ''#'' @ v, index := 1\<rparr>]))"
  by (simp add: id_sel_def Let_def indexOf_order)

lemma pseudoElement_eq:
  "pseudoElement v this h =
     (if isPsEl (h ! this) then (Inl getErr, h)
      else if 5 < index (h ! this)
        then (Inl getErrOrder, h @ [(h ! this)\<lparr>isPsEl := True, res := res (h ! this) @ ''::'' @ v\<rparr>])
        else (Inr (length h), h @ [(h ! this)\<lparr>isPsEl := True, res := res (h ! this) @ ''::'' @ v, index := 5\<rparr>]))"
  by (simp add: pseudoElement_def Let_def indexOf_order)

lemma class_sel_eq:
  "class_sel v this h =
     (if 2 < index (h ! this) then (Inl getErrOrder, h)
      else (Inr this, h[this := (h ! this)\<lparr>index := 2, res := res (h ! this) @ ''.'' @ v\<rparr>]))"
  by (cases "this < length h") (simp_all add: class_sel_def Let_def indexOf_order not_less list_update_beyond)

lemma attr_eq:
  "attr v this h =
     (if 3 < index (h ! this) then (Inl getErrOrder, h)
      else (Inr this, h[this := (h ! this)\<lparr>index := 3, res := res (h ! this) @ ''['' @ v @ '']''\<rparr>]))"
  by (cases "this < length h") (simp_all add: attr_def Let_def indexOf_order not_less list_update_beyond)

lemma pseudoClass_eq:
  "pseudoClass v this h =
     (if 4 < index (h ! this) then (Inl getErrOrder, h)
      else (Inr this, h[this := (h ! this)\<lparr>index := 4, res := res (h ! this) @ '':'' @ v\<rparr>]))"
  by (cases "this < length h") (simp_all add: pseudoClass_def Let_def indexOf_order not_less list_update_beyond)

lemma stringify_eq:
  "stringify this h = (Inr (res (h ! this)), h[this := (h ! this)\<lparr>res := [], index := - 1\<rparr>])"
  by (cases "this < length h") (simp_all add: stringify_def Let_def not_less list_update_beyond)

lemmas append_eqs = element_eq id_sel_eq class_sel_eq attr_eq pseudoClass_eq pseudoElement_eq

lemma append_part_step:
  assumes "this < length h" and "append_part k v this h = (Inr a, h')"
  shows "a < length h' \<and> index (h ! this) \<le> index (h' ! a) \<and> index (h' ! a) = rank k
    \<and> (seen j (h ! this) \<longrightarrow> seen j (h' ! a))
    \<and> seen k (h' ! a) = (k \<in> {Element, Id, PseudoElement}) \<and> \<not> seen k (h ! this)"
  using assms
  by (cases k; cases j; auto simp: append_eqs indexOf_order split: if_splits)

lemma chain_inv:
  "this < length h \<Longrightarrow> chain ops this h = (Inr a, h') \<Longrightarrow>
     a < length h' \<and> index (h ! this) \<le> index (h' ! a) \<and> (seen j (h ! this) \<longrightarrow> seen j (h' ! a))"
proof (induction ops arbitrary: this h)
  case Nil
  then show ?case by simp
next
  case (Cons op ops)
  obtain k v where op: "op = (k, v)" by (cases op)
  from Cons.prems(2) obtain b h1 where
    st: "append_part k v this h = (Inr b, h1)" and rest: "chain ops b h1 = (Inr a, h')"
    by (auto simp: op then_call_def split: prod.splits sum.splits)
  from append_part_step[OF Cons.prems(1) st, of j]
  have b: "b < length h1" "index (h ! this) \<le> index (h1 ! b)" "seen j (h ! this) \<Longrightarrow> seen j (h1 ! b)"
    by blast+
  from Cons.IH[OF b(1) rest] b show ?case by auto
qed


lemmas run_defs = then_call_def append_eqs stringify_eq store0_def builder_def cssSelectorBuilder_def

subsection \<open>Evaluating the JSON helpers\<close>

lemma decimal_digit: "n < 10 \<Longrightarrow> decimal n = [''0123456789'' ! n]"
  by (subst decimal.simps) simp

lemma decimal_more:
  "\<not> n < 10 \<Longrightarrow> decimal n = decimal (n div 10) @ [''0123456789'' ! (n mod 10)]"
  by (subst decimal.simps) simp

declare decimal.simps [simp del]

lemmas json_defs = getJSON_def fromJSON_def flat_stringify_def flat_parse_def number_text_def
  decimal_digit decimal_more digit_of_def signed_def Object_keys_def get_prop_def
  Rectangle_def new_Rectangle_def argument_def

lemma values_in_order:
  "distinct (map fst obj) \<Longrightarrow> map (get_prop obj) (Object_keys obj) = map snd obj"
  by (auto simp: Object_keys_def get_prop_def)

subsection \<open>The claims\<close>

text \<open>
  C1, as the code has it. A call of an appending method whose own flag is not set (the methods
  \<open>class\<close>, \<open>attr\<close> and \<open>pseudoClass\<close> have no flag) throws the order error when the rank
  recorded on the receiver is strictly greater than the method's rank, and otherwise returns
  a selector whose recorded rank is the method's rank, also when the two were equal. A call
  whose flag is set throws the duplicate error first, whatever the ranks, and leaves the store
  as it was. Along any chain of successful calls the recorded rank never decreases.
\<close>

theorem append_order_rule:
  assumes "this < length h"
  shows "(seen k (h ! this) \<longrightarrow> append_part k v this h = (Inl getErr, h)) \<and>
         (\<not> seen k (h ! this) \<and> rank k < index (h ! this) \<longrightarrow>
            fst (append_part k v this h) = Inl getErrOrder) \<and>
         (\<not> seen k (h ! this) \<and> index (h ! this) \<le> rank k \<longrightarrow>
            (\<exists>a. fst (append_part k v this h) = Inr a \<and>
                 a < length (snd (append_part k v this h)) \<and>
                 index (snd (append_part k v this h) ! a) = rank k)) \<and>
         (\<forall>ops a h'. chain ops this h = (Inr a, h') \<longrightarrow> index (h ! this) \<le> index (h' ! a))"
proof (intro conjI)
  show "seen k (h ! this) \<longrightarrow> append_part k v this h = (Inl getErr, h)"
    by (cases k) (simp_all add: append_eqs)
  show "\<not> seen k (h ! this) \<and> rank k < index (h ! this) \<longrightarrow>
            fst (append_part k v this h) = Inl getErrOrder"
    by (cases k) (simp_all add: append_eqs indexOf_order)
  show "\<not> seen k (h ! this) \<and> index (h ! this) \<le> rank k \<longrightarrow>
            (\<exists>a. fst (append_part k v this h) = Inr a \<and>
                 a < length (snd (append_part k v this h)) \<and>
                 index (snd (append_part k v this h) ! a) = rank k)"
    using assms by (cases k) (simp_all add: append_eqs indexOf_order)
  show "\<forall>ops a h'. chain ops this h = (Inr a, h') \<longrightarrow> index (h ! this) \<le> index (h' ! a)"
    using chain_inv[OF assms] by blast
qed

text \<open>
  On the facade: \<open>class('x')\<close> succeeds with rank 2, a second \<open>class\<close> keeps it, \<open>id\<close> after
  \<open>class\<close> throws the order error, and \<open>element\<close> after \<open>element\<close> the duplicate error.
\<close>

theorem append_order_rule_witness:
  "builder < length store0 \<and>
   fst (append_part Class ''x'' builder store0) = Inr builder \<and>
   index (snd (append_part Class ''x'' builder store0) ! builder) = rank Class \<and>
   fst (chain [(Class, ''x''), (Class, ''y'')] builder store0) = Inr builder \<and>
   index (snd (chain [(Class, ''x''), (Class, ''y'')] builder store0) ! builder) = rank Class \<and>
   fst (chain [(Class, ''x''), (Id, ''y'')] builder store0) = Inl getErrOrder \<and>
   fst (chain [(Element, ''x''), (Element, ''y'')] builder store0) = Inl getErr \<and>
   index (store0 ! builder) \<le> index (snd (chain [(Element, ''a''), (Id, ''b'')] builder store0) ! 2)"
  using append_order_rule[of builder store0 Class "''x''"]
    append_order_rule[of builder "snd (append_part Class ''x'' builder store0)" Id "''y''"]
    append_order_rule[of 1 "snd (append_part Element ''x'' builder store0)" Element "''y''"]
  by (simp add: run_defs indexOf_order)

text \<open>
  The claim as it is written fails: after \<open>element('a').id('b')\<close> the recorded rank is 1,
  strictly greater than the rank 0 of \<open>element\<close>, and \<open>element('c')\<close> throws the duplicate
  error, not the order error.
\<close>

theorem append_order_rule_counterexample:
  "fst (chain [(Element, ''a''), (Id, ''b'')] builder store0) = Inr 2 \<and>
   rank Element < index (snd (chain [(Element, ''a''), (Id, ''b'')] builder store0) ! 2) \<and>
   fst (chain [(Element, ''a''), (Id, ''b''), (Element, ''c'')] builder store0) = Inl getErr \<and>
   getErr \<noteq> getErrOrder"
  by (simp add: run_defs indexOf_order getErr_def getErrOrder_def)

text \<open>
  C2, as the code has it. Once \<open>element\<close>, \<open>id\<close> or \<open>pseudoElement\<close> has succeeded in a
  chain, a second call of the same method later in that chain, after any further successful
  calls, throws an error whose message is the text of \<open>getErr\<close>: "more then one time", and
  no full stop.
\<close>

theorem second_restricted_call_fails:
  assumes "k \<in> {Element, Id, PseudoElement}" and "this < length h"
    and "append_part k v this h = (Inr a, h1)" and "chain ops a h1 = (Inr b, h2)"
  shows "fst (append_part k w b h2) =
    Inl (Error ''Element, id and pseudo-element should not occur more then one time inside the selector'')"
proof -
  from append_part_step[OF assms(2,3), of k] assms(1)
  have a: "a < length h1" "seen k (h1 ! a)" by auto
  from chain_inv[OF a(1) assms(4), of k] a(2) have "seen k (h2 ! b)" by simp
  with assms(1) show ?thesis
    by (auto simp: append_eqs getErr_def)
qed

theorem second_restricted_call_fails_witness:
  "Id \<in> {Element, Id, PseudoElement} \<and> builder < length store0 \<and>
   fst (append_part Id ''main'' builder store0) = Inr 1 \<and>
   fst (chain [(Class, ''c''), (Attribute, ''d'')] 1 (snd (append_part Id ''main'' builder store0))) = Inr 1 \<and>
   fst (chain [(Id, ''main''), (Class, ''c''), (Attribute, ''d''), (Id, ''x'')] builder store0) =
    Inl (Error ''Element, id and pseudo-element should not occur more then one time inside the selector'')"
  using second_restricted_call_fails[of Id builder store0 "''main''" 1
      "snd (append_part Id ''main'' builder store0)" "[(Class, ''c''), (Attribute, ''d'')]" 1
      "snd (chain [(Class, ''c''), (Attribute, ''d'')] 1 (snd (append_part Id ''main'' builder store0)))"
      "''x''"]
  by (simp add: run_defs indexOf_order)

text \<open>
  The message of the claim, "more than one time inside the selector.", is not the one thrown
  by \<open>element('div').element('p')\<close>.
\<close>

theorem duplicate_message_counterexample:
  "fst (chain [(Element, ''div''), (Element, ''p'')] builder store0) = Inl getErr \<and>
   getErr \<noteq>
     Error ''Element, id and pseudo-element should not occur more than one time inside the selector.''"
  by (simp add: run_defs getErr_def)

text \<open>
  C3. From the store that holds only the facade,
  \<open>element('div').id('main').class('container').class('draggable').stringify()\<close>
  returns \<open>'div#main.container.draggable'\<close>.
\<close>

theorem render_div_main_container_draggable:
  "fst (then_call (then_call (then_call (then_call (element ''div'' builder) (id_sel ''main''))
          (class_sel ''container'')) (class_sel ''draggable'')) stringify store0)
   = Inr ''div#main.container.draggable''"
  by (simp add: run_defs)

text \<open>
  C4, as the code has it. When the two selectors are different objects, \<open>combine\<close> returns its
  receiver, and rendering it gives the text of the first, a space, the combinator, a space and
  the text of the second, whatever the combinator; \<open>combine(element('div'), '>', id('x'))\<close>
  on the facade renders as \<open>'div > #x'\<close>.
\<close>

theorem combine_distinct_selectors:
  "(selector1 \<noteq> selector2 \<and> this < length h \<longrightarrow>
      fst (combine selector1 c selector2 this h) = Inr this \<and>
      fst (then_call (combine selector1 c selector2 this) stringify h) =
        Inr (res (h ! selector1) @ '' '' @ c @ '' '' @ res (h ! selector2))) \<and>
   fst (then_call (element ''div'' builder) (\<lambda>a.
        then_call (id_sel ''x'' builder) (\<lambda>b.
        then_call (combine a ''>'' b builder) stringify)) store0) = Inr ''div > #x''"
  by (auto simp: combine_def run_defs)

theorem combine_distinct_selectors_witness:
  "(1::nat) \<noteq> 2 \<and>
   builder < length [cssSelectorBuilder, cssSelectorBuilder\<lparr>res := ''p''\<rparr>,
        cssSelectorBuilder\<lparr>res := ''.q''\<rparr>] \<and>
   fst (then_call (combine 1 ''~'' 2 builder) stringify
     [cssSelectorBuilder, cssSelectorBuilder\<lparr>res := ''p''\<rparr>, cssSelectorBuilder\<lparr>res := ''.q''\<rparr>])
    = Inr ''p ~ .q''"
  using combine_distinct_selectors[of 1 2 builder
     "[cssSelectorBuilder, cssSelectorBuilder\<lparr>res := ''p''\<rparr>, cssSelectorBuilder\<lparr>res := ''.q''\<rparr>]"
     "''~''"]
  by (simp add: run_defs)

text \<open>
  The claim as it is written fails when the two arguments are one object: with
  \<open>s = element('div')\<close>, whose text is \<open>'div'\<close>, \<open>combine(s, '>', s)\<close> renders as \<open>'div > '\<close>,
  because the first \<open>stringify\<close> has emptied the object that the second one reads. The two
  values of \<open>class('a')\<close> and \<open>class('b')\<close> on the facade are one object as well, and their
  combination renders as \<open>'.a.b + '\<close>.
\<close>

theorem combine_aliased_counterexample:
  "fst (element ''div'' builder store0) = Inr 1 \<and>
   res (snd (element ''div'' builder store0) ! 1) = ''div'' \<and>
   fst (then_call (combine 1 ''>'' 1 builder) stringify (snd (element ''div'' builder store0)))
     = Inr ''div > '' \<and>
   fst (then_call (combine 1 ''>'' 1 builder) stringify (snd (element ''div'' builder store0)))
     \<noteq> Inr (res (snd (element ''div'' builder store0) ! 1) @ '' '' @ ''>'' @ '' '' @
            res (snd (element ''div'' builder store0) ! 1)) \<and>
   fst (then_call (class_sel ''a'' builder) (\<lambda>a.
        then_call (class_sel ''b'' builder) (\<lambda>b.
        then_call (combine a ''+'' b builder) stringify)) store0) = Inr ''.a.b + ''"
  by (simp add: combine_def run_defs)

text \<open>
  C5, where the code departs from the claim. \<open>class('a').pseudoElement('b').stringify()\<close> on
  the facade returns \<open>'.a::b'\<close> and resets the copy that \<open>pseudoElement\<close> made; the facade,
  which \<open>class\<close> wrote to, keeps the text \<open>'.a'\<close> and the rank 2. The next chain from the
  facade carries them: \<open>class('z').stringify()\<close> returns \<open>'.a.z'\<close>, and \<open>element('div')\<close>
  throws the order error.
\<close>

theorem facade_residue_after_stringify:
  "then_call (then_call (class_sel ''a'' builder) (pseudoElement ''b'')) stringify store0 =
     (Inr ''.a::b'', [\<lparr>res = ''.a'', isEl = False, isId = False, isPsEl = False, index = 2\<rparr>,
                      \<lparr>res = [], isEl = False, isId = False, isPsEl = True, index = - 1\<rparr>]) \<and>
   fst (then_call (class_sel ''z'' builder) stringify
     [\<lparr>res = ''.a'', isEl = False, isId = False, isPsEl = False, index = 2\<rparr>,
      \<lparr>res = [], isEl = False, isId = False, isPsEl = True, index = - 1\<rparr>]) = Inr ''.a.z'' \<and>
   fst (element ''div'' builder
     [\<lparr>res = ''.a'', isEl = False, isId = False, isPsEl = False, index = 2\<rparr>,
      \<lparr>res = [], isEl = False, isId = False, isPsEl = True, index = - 1\<rparr>]) = Inl getErrOrder"
  by (simp add: run_defs)

text \<open>
  C6. A call of an appending method that throws, throws one of the two errors and leaves
  every object that was in the store, the receiver among them, as it was (text, rank and
  flags). When the duplicate flag was set, or the method is \<open>class\<close>, \<open>attr\<close> or
  \<open>pseudoClass\<close>, the store is untouched; \<open>element\<close>, \<open>id\<close> and \<open>pseudoElement\<close> compare
  the ranks after writing to their copy, which is a new object that nothing refers to.
\<close>

theorem failed_append_leaves_store:
  assumes "this < length h" and "append_part k v this h = (Inl e, h')"
  shows "(e = getErr \<or> e = getErrOrder) \<and> h' ! this = h ! this \<and>
         (\<forall>a < length h. h' ! a = h ! a) \<and>
         (seen k (h ! this) \<or> k \<in> {Class, Attribute, PseudoClass} \<longrightarrow> h' = h)"
  using assms by (cases k) (auto simp: append_eqs nth_append split: if_splits)

theorem failed_append_leaves_store_witness:
  "fst (chain [(Class, ''c'')] builder store0) = Inr builder \<and>
   builder < length (snd (chain [(Class, ''c'')] builder store0)) \<and>
   fst (append_part Id ''i'' builder (snd (chain [(Class, ''c'')] builder store0))) = Inl getErrOrder \<and>
   snd (append_part Id ''i'' builder (snd (chain [(Class, ''c'')] builder store0))) ! builder
     = \<lparr>res = ''.c'', isEl = False, isId = False, isPsEl = False, index = 2\<rparr> \<and>
   snd (chain [(Class, ''c'')] builder store0) ! builder
     = \<lparr>res = ''.c'', isEl = False, isId = False, isPsEl = False, index = 2\<rparr>"
  using failed_append_leaves_store[of builder "snd (chain [(Class, ''c'')] builder store0)" Id "''i''"
      getErrOrder "snd (append_part Id ''i'' builder (snd (chain [(Class, ''c'')] builder store0)))"]
  by (simp add: run_defs indexOf_order)

text \<open>
  C7. A successful \<open>attr(value)\<close> (the attribute operation) appends \<open>'[' + value + ']'\<close> to the
  text of its receiver, and a successful \<open>pseudoClass(value)\<close> appends \<open>':' + value\<close>;
  \<open>element('a').attr('href$=".png"').pseudoClass('focus').stringify()\<close> on the facade returns
  \<open>'a[href$=".png"]:focus'\<close>.
\<close>

theorem attr_and_pseudoClass_append:
  \<open>(this < length h \<and> attr v this h = (Inr a, h') \<longrightarrow>
      res (h' ! a) = res (h ! this) @ ''['' @ v @ '']'') \<and>
   (this < length h \<and> pseudoClass v this h = (Inr a, h') \<longrightarrow>
      res (h' ! a) = res (h ! this) @ '':'' @ v) \<and>
   fst (then_call (then_call (then_call (element ''a'' builder) (attr ''href$=".png"''))
          (pseudoClass ''focus'')) stringify store0) = Inr ''a[href$=".png"]:focus''\<close>
  by (auto simp: run_defs split: if_splits)

theorem attr_and_pseudoClass_append_witness:
  "builder < length store0 \<and>
   attr ''title'' builder store0 =
     (Inr builder, [\<lparr>res = ''[title]'', isEl = False, isId = False, isPsEl = False, index = 3\<rparr>]) \<and>
   pseudoClass ''hover'' builder store0 =
     (Inr builder, [\<lparr>res = '':hover'', isEl = False, isId = False, isPsEl = False, index = 4\<rparr>]) \<and>
   res (store0 ! builder) = []"
  using attr_and_pseudoClass_append[of builder store0 "''title''" builder
      "[\<lparr>res = ''[title]'', isEl = False, isId = False, isPsEl = False, index = 3\<rparr>]"]
    attr_and_pseudoClass_append[of builder store0 "''hover''" builder
      "[\<lparr>res = '':hover'', isEl = False, isId = False, isPsEl = False, index = 4\<rparr>]"]
  by (simp add: run_defs)

text \<open>
  C8, as the code has it. For a plain data object that \<open>JSON.parse\<close> gives back from its
  \<open>JSON.stringify\<close> text, \<open>fromJSON(proto, getJSON(obj))\<close> is the value \<open>proto.constructor\<close>
  returns for the values of the object's properties, passed positionally in the order of its
  keys. The fields of that value are the original's when the constructor assigns its
  parameters to the same fields in the same order, as \<open>Rectangle\<close> does for
  \<open>{ width: 10, height: 20 }\<close>.
\<close>

theorem fromJSON_getJSON:
  "(JSON_parse (JSON_stringify obj) = Some obj \<and> distinct (map fst obj) \<longrightarrow>
      fromJSON JSON_parse proto_constructor (getJSON JSON_stringify obj)
        = Some (proto_constructor (map snd obj))) \<and>
   fromJSON flat_parse new_Rectangle (getJSON flat_stringify (Rectangle (Num 10) (Num 20)))
        = Some (Rectangle (Num 10) (Num 20))"
proof (intro conjI impI)
  assume a: "JSON_parse (JSON_stringify obj) = Some obj \<and> distinct (map fst obj)"
  then have "map (get_prop obj) (Object_keys obj) = map snd obj"
    by (simp add: values_in_order)
  with a show "fromJSON JSON_parse proto_constructor (getJSON JSON_stringify obj)
        = Some (proto_constructor (map snd obj))"
    by (simp add: fromJSON_def getJSON_def)
next
  show "fromJSON flat_parse new_Rectangle (getJSON flat_stringify (Rectangle (Num 10) (Num 20)))
        = Some (Rectangle (Num 10) (Num 20))"
    by (simp add: json_defs)
qed

theorem fromJSON_getJSON_witness:
  \<open>flat_stringify [(''width'', Num 10), (''height'', Num 20)] = ''{"width":10,"height":20}'' \<and>
   flat_parse ''{"width":10,"height":20}'' = Some [(''width'', Num 10), (''height'', Num 20)] \<and>
   distinct (map fst [(''width'', Num 10), (''height'', Num 20)]) \<and>
   fromJSON flat_parse new_Rectangle (getJSON flat_stringify [(''width'', Num 10), (''height'', Num 20)])
     = Some (new_Rectangle [Num 10, Num 20])\<close>
  using fromJSON_getJSON[of flat_parse flat_stringify "[(''width'', Num 10), (''height'', Num 20)]"
      new_Rectangle]
  by (simp add: json_defs)

text \<open>
  The claim as it is written fails for an object whose keys are not in the order of the
  constructor's parameters: \<open>{ height: 10, width: 20 }\<close> is serialized as
  \<open>'{"height":10,"width":20}'\<close>, and \<open>fromJSON(Rectangle.prototype, ...)\<close> calls
  \<open>new Rectangle(10, 20)\<close>, whose \<open>width\<close> is 10 where the original's is 20.
\<close>

theorem fromJSON_getJSON_counterexample:
  \<open>getJSON flat_stringify [(''height'', Num 10), (''width'', Num 20)] = ''{"height":10,"width":20}'' \<and>
   fromJSON flat_parse new_Rectangle ''{"height":10,"width":20}''
     = Some [(''width'', Num 10), (''height'', Num 20)] \<and>
   get_prop [(''width'', Num 10), (''height'', Num 20)] ''width'' = Num 10 \<and>
   get_prop [(''height'', Num 10), (''width'', Num 20)] ''width'' = Num 20\<close>
  by (simp add: json_defs)

text \<open>
  C9. \<open>stringify\<close> empties the text of its receiver and sets its rank to \<open>-1\<close>, and leaves
  the three flags \<open>isEl\<close>, \<open>isId\<close> and \<open>isPsEl\<close> as they were: on a selector that has an
  element part, \<open>element\<close> after \<open>stringify\<close> still throws the duplicate error.
\<close>

theorem stringify_keeps_flags:
  assumes "this < length h" and "stringify this h = (Inr t, h')"
  shows "res (h' ! this) = [] \<and> index (h' ! this) = - 1 \<and>
         isEl (h' ! this) = isEl (h ! this) \<and> isId (h' ! this) = isId (h ! this) \<and>
         isPsEl (h' ! this) = isPsEl (h ! this) \<and>
         (isEl (h ! this) \<longrightarrow> fst (element v this h') = Inl getErr)"
  using assms by (auto simp: stringify_eq element_eq)

theorem stringify_keeps_flags_witness:
  "fst (element ''div'' builder store0) = Inr 1 \<and>
   1 < length (snd (element ''div'' builder store0)) \<and>
   isEl (snd (element ''div'' builder store0) ! 1) \<and>
   stringify 1 (snd (element ''div'' builder store0)) =
     (Inr ''div'',
      [cssSelectorBuilder, \<lparr>res = [], isEl = True, isId = False, isPsEl = False, index = - 1\<rparr>]) \<and>
   fst (element ''p'' 1
      [cssSelectorBuilder, \<lparr>res = [], isEl = True, isId = False, isPsEl = False, index = - 1\<rparr>])
     = Inl getErr"
  using stringify_keeps_flags[of 1 "snd (element ''div'' builder store0)" "''div''"
     "[cssSelectorBuilder, \<lparr>res = [], isEl = True, isId = False, isPsEl = False, index = - 1\<rparr>]"
     "''p''"]
  by (simp add: run_defs)

text \<open>
  C10. A successful \<open>class\<close>, \<open>attr\<close> or \<open>pseudoClass\<close> returns its receiver and allocates
  nothing: the store it leaves is the old one with the receiver's rank set to the method's and
  the fragment (\<open>'.' + value\<close>, \<open>'[' + value + ']'\<close>, \<open>':' + value\<close>) appended to the
  receiver's text. A successful \<open>element\<close>, \<open>id\<close> or \<open>pseudoElement\<close> returns a new
  object, which is the receiver's copy with the method's flag set, the fragment (\<open>value\<close>,
  \<open>'#' + value\<close>, \<open>'::' + value\<close>) appended and the method's rank, and leaves every
  object of the store as it was. So after \<open>s1 = cssSelectorBuilder.class('a')\<close> and
  \<open>cssSelectorBuilder.class('b')\<close>, \<open>s1.stringify()\<close> returns \<open>'.a.b'\<close>.
\<close>

theorem in_place_calls_alias:
  "(this < length h \<and> k \<in> {Class, Attribute, PseudoClass} \<and> append_part k v this h = (Inr a, h')
      \<longrightarrow> a = this \<and> length h' = length h \<and> (\<forall>b < length h. b \<noteq> this \<longrightarrow> h' ! b = h ! b) \<and>
          index (h' ! this) = rank k \<and> isEl (h' ! this) = isEl (h ! this) \<and>
          isId (h' ! this) = isId (h ! this) \<and> isPsEl (h' ! this) = isPsEl (h ! this)) \<and>
   (this < length h \<and> k \<in> {Element, Id, PseudoElement} \<and> append_part k v this h = (Inr a, h')
      \<longrightarrow> a = length h \<and> a \<noteq> this \<and> length h' = Suc (length h) \<and>
          (\<forall>b < length h. h' ! b = h ! b) \<and> index (h' ! a) = rank k \<and> seen k (h' ! a)) \<and>
   (this < length h \<and> class_sel v this h = (Inr a, h') \<longrightarrow>
      a = this \<and> h' = h[this := (h ! this)\<lparr>index := 2, res := res (h ! this) @ ''.'' @ v\<rparr>]) \<and>
   (this < length h \<and> attr v this h = (Inr a, h') \<longrightarrow>
      a = this \<and> h' = h[this := (h ! this)\<lparr>index := 3, res := res (h ! this) @ ''['' @ v @ '']''\<rparr>]) \<and>
   (this < length h \<and> pseudoClass v this h = (Inr a, h') \<longrightarrow>
      a = this \<and> h' = h[this := (h ! this)\<lparr>index := 4, res := res (h ! this) @ '':'' @ v\<rparr>]) \<and>
   (this < length h \<and> element v this h = (Inr a, h') \<longrightarrow>
      a = length h \<and>
      h' = h @ [(h ! this)\<lparr>isEl := True, res := res (h ! this) @ v, index := 0\<rparr>]) \<and>
   (this < length h \<and> id_sel v this h = (Inr a, h') \<longrightarrow>
      a = length h \<and>
      h' = h @ [(h ! this)\<lparr>isId := True, res := res (h ! this) @ ''#'' @ v, index := 1\<rparr>]) \<and>
   (this < length h \<and> pseudoElement v this h = (Inr a, h') \<longrightarrow>
      a = length h \<and>
      h' = h @ [(h ! this)\<lparr>isPsEl := True, res := res (h ! this) @ ''::'' @ v, index := 5\<rparr>]) \<and>
   fst (then_call (class_sel ''a'' builder) (\<lambda>s1.
        then_call (class_sel ''b'' builder) (\<lambda>s2. stringify s1)) store0) = Inr ''.a.b''"
proof (intro conjI)
  show "this < length h \<and> k \<in> {Class, Attribute, PseudoClass} \<and> append_part k v this h = (Inr a, h')
      \<longrightarrow> a = this \<and> length h' = length h \<and> (\<forall>b < length h. b \<noteq> this \<longrightarrow> h' ! b = h ! b) \<and>
          index (h' ! this) = rank k \<and> isEl (h' ! this) = isEl (h ! this) \<and>
          isId (h' ! this) = isId (h ! this) \<and> isPsEl (h' ! this) = isPsEl (h ! this)"
    by (cases k) (auto simp: append_eqs indexOf_order split: if_splits)
  show "this < length h \<and> k \<in> {Element, Id, PseudoElement} \<and> append_part k v this h = (Inr a, h')
      \<longrightarrow> a = length h \<and> a \<noteq> this \<and> length h' = Suc (length h) \<and>
          (\<forall>b < length h. h' ! b = h ! b) \<and> index (h' ! a) = rank k \<and> seen k (h' ! a)"
    by (cases k) (auto simp: append_eqs indexOf_order nth_append split: if_splits)
  show "this < length h \<and> class_sel v this h = (Inr a, h') \<longrightarrow>
      a = this \<and> h' = h[this := (h ! this)\<lparr>index := 2, res := res (h ! this) @ ''.'' @ v\<rparr>]"
    by (auto simp: class_sel_eq split: if_splits)
  show "this < length h \<and> attr v this h = (Inr a, h') \<longrightarrow>
      a = this \<and> h' = h[this := (h ! this)\<lparr>index := 3, res := res (h ! this) @ ''['' @ v @ '']''\<rparr>]"
    by (auto simp: attr_eq split: if_splits)
  show "this < length h \<and> pseudoClass v this h = (Inr a, h') \<longrightarrow>
      a = this \<and> h' = h[this := (h ! this)\<lparr>index := 4, res := res (h ! this) @ '':'' @ v\<rparr>]"
    by (auto simp: pseudoClass_eq split: if_splits)
  show "this < length h \<and> element v this h = (Inr a, h') \<longrightarrow>
      a = length h \<and>
      h' = h @ [(h ! this)\<lparr>isEl := True, res := res (h ! this) @ v, index := 0\<rparr>]"
    by (auto simp: element_eq split: if_splits)
  show "this < length h \<and> id_sel v this h = (Inr a, h') \<longrightarrow>
      a = length h \<and>
      h' = h @ [(h ! this)\<lparr>isId := True, res := res (h ! this) @ ''#'' @ v, index := 1\<rparr>]"
    by (auto simp: id_sel_eq split: if_splits)
  show "this < length h \<and> pseudoElement v this h = (Inr a, h') \<longrightarrow>
      a = length h \<and>
      h' = h @ [(h ! this)\<lparr>isPsEl := True, res := res (h ! this) @ ''::'' @ v, index := 5\<rparr>]"
    by (auto simp: pseudoElement_eq split: if_splits)
  show "fst (then_call (class_sel ''a'' builder) (\<lambda>s1.
        then_call (class_sel ''b'' builder) (\<lambda>s2. stringify s1)) store0) = Inr ''.a.b''"
    by (simp add: run_defs)
qed

text \<open>
  On a store whose second object is a selector with the text \<open>'p'\<close>, the id flag set and no
  rank, and on the selector \<open>'div'\<close> that \<open>element\<close> returns: each of the six methods leaves
  the text, the flags and the rank stated.
\<close>

theorem in_place_calls_alias_witness:
  "(1::nat) < length [cssSelectorBuilder,
        \<lparr>res = ''p'', isEl = False, isId = True, isPsEl = False, index = - 1\<rparr>] \<and>
   class_sel ''c'' 1 [cssSelectorBuilder,
        \<lparr>res = ''p'', isEl = False, isId = True, isPsEl = False, index = - 1\<rparr>] =
     (Inr 1, [cssSelectorBuilder,
        \<lparr>res = ''p.c'', isEl = False, isId = True, isPsEl = False, index = 2\<rparr>]) \<and>
   attr ''t'' 1 [cssSelectorBuilder,
        \<lparr>res = ''p'', isEl = False, isId = True, isPsEl = False, index = - 1\<rparr>] =
     (Inr 1, [cssSelectorBuilder,
        \<lparr>res = ''p[t]'', isEl = False, isId = True, isPsEl = False, index = 3\<rparr>]) \<and>
   pseudoClass ''f'' 1 [cssSelectorBuilder,
        \<lparr>res = ''p'', isEl = False, isId = True, isPsEl = False, index = - 1\<rparr>] =
     (Inr 1, [cssSelectorBuilder,
        \<lparr>res = ''p:f'', isEl = False, isId = True, isPsEl = False, index = 4\<rparr>]) \<and>
   element ''e'' 1 [cssSelectorBuilder,
        \<lparr>res = ''p'', isEl = False, isId = True, isPsEl = False, index = - 1\<rparr>] =
     (Inr 2, [cssSelectorBuilder,
        \<lparr>res = ''p'', isEl = False, isId = True, isPsEl = False, index = - 1\<rparr>,
        \<lparr>res = ''pe'', isEl = True, isId = True, isPsEl = False, index = 0\<rparr>]) \<and>
   pseudoElement ''b'' 1 [cssSelectorBuilder,
        \<lparr>res = ''p'', isEl = False, isId = True, isPsEl = False, index = - 1\<rparr>] =
     (Inr 2, [cssSelectorBuilder,
        \<lparr>res = ''p'', isEl = False, isId = True, isPsEl = False, index = - 1\<rparr>,
        \<lparr>res = ''p::b'', isEl = False, isId = True, isPsEl = True, index = 5\<rparr>]) \<and>
   element ''div'' builder store0 =
     (Inr 1, [cssSelectorBuilder,
        \<lparr>res = ''div'', isEl = True, isId = False, isPsEl = False, index = 0\<rparr>]) \<and>
   id_sel ''m'' 1 [cssSelectorBuilder,
        \<lparr>res = ''div'', isEl = True, isId = False, isPsEl = False, index = 0\<rparr>] =
     (Inr 2, [cssSelectorBuilder,
        \<lparr>res = ''div'', isEl = True, isId = False, isPsEl = False, index = 0\<rparr>,
        \<lparr>res = ''div#m'', isEl = True, isId = True, isPsEl = False, index = 1\<rparr>])"
  using
    in_place_calls_alias[of 1 "[cssSelectorBuilder,
        \<lparr>res = ''p'', isEl = False, isId = True, isPsEl = False, index = - 1\<rparr>]" Class "''c''" 1
      "[cssSelectorBuilder, \<lparr>res = ''p.c'', isEl = False, isId = True, isPsEl = False, index = 2\<rparr>]"]
    in_place_calls_alias[of 1 "[cssSelectorBuilder,
        \<lparr>res = ''p'', isEl = False, isId = True, isPsEl = False, index = - 1\<rparr>]" Attribute "''t''" 1
      "[cssSelectorBuilder, \<lparr>res = ''p[t]'', isEl = False, isId = True, isPsEl = False, index = 3\<rparr>]"]
    in_place_calls_alias[of 1 "[cssSelectorBuilder,
        \<lparr>res = ''p'', isEl = False, isId = True, isPsEl = False, index = - 1\<rparr>]" PseudoClass "''f''" 1
      "[cssSelectorBuilder, \<lparr>res = ''p:f'', isEl = False, isId = True, isPsEl = False, index = 4\<rparr>]"]
    in_place_calls_alias[of 1 "[cssSelectorBuilder,
        \<lparr>res = ''p'', isEl = False, isId = True, isPsEl = False, index = - 1\<rparr>]" Element "''e''" 2
      "[cssSelectorBuilder,
        \<lparr>res = ''p'', isEl = False, isId = True, isPsEl = False, index = - 1\<rparr>,
        \<lparr>res = ''pe'', isEl = True, isId = True, isPsEl = False, index = 0\<rparr>]"]
    in_place_calls_alias[of 1 "[cssSelectorBuilder,
        \<lparr>res = ''p'', isEl = False, isId = True, isPsEl = False, index = - 1\<rparr>]" PseudoElement "''b''" 2
      "[cssSelectorBuilder,
        \<lparr>res = ''p'', isEl = False, isId = True, isPsEl = False, index = - 1\<rparr>,
        \<lparr>res = ''p::b'', isEl = False, isId = True, isPsEl = True, index = 5\<rparr>]"]
    in_place_calls_alias[of 1 "[cssSelectorBuilder,
        \<lparr>res = ''div'', isEl = True, isId = False, isPsEl = False, index = 0\<rparr>]" Id "''m''" 2
      "[cssSelectorBuilder,
        \<lparr>res = ''div'', isEl = True, isId = False, isPsEl = False, index = 0\<rparr>,
        \<lparr>res = ''div#m'', isEl = True, isId = True, isPsEl = False, index = 1\<rparr>]"]
  by (simp add: run_defs)

end
